theory Spec2Isabelle
  imports Main "HOL-Library.Multiset" "HOL-Library.Sublist"
begin

section \<open>Values and records\<close>

text \<open>
  The fields of the JSON request body are arbitrary JavaScript values. Only their
  truthiness and whether they are strings matter to \<open>api/index.js\<close>, so arrays and
  objects are one constructor.
\<close>

datatype jsval = Undefined | Null | JBool bool | JNum int | JStr string | JObject

fun truthy :: "jsval \<Rightarrow> bool" where
  "truthy Undefined = False"
| "truthy Null = False"
| "truthy (JBool b) = b"
| "truthy (JNum n) = (n \<noteq> 0)"
| "truthy (JStr s) = (s \<noteq> [])"
| "truthy JObject = True"

type_synonym user_id = string
type_synonym timestamp = nat

text \<open>
  A JavaScript string is the list of its code units, so \<open>length\<close> is \<open>.length\<close> and
  \<open>take 50\<close> is \<open>.substring(0, 50)\<close>. An error object is represented by its
  \<open>message\<close> property.
\<close>

type_synonym js_error = string

text \<open>
  Rows of the two tables. Identifiers are opaque keys assigned by the store; they are
  numbered here. \<open>conv_id\<close> is the column \<open>id\<close> of \<open>conversations\<close> and \<open>msg_id\<close>
  the column \<open>id\<close> of \<open>messages\<close>.
\<close>

record conversation =
  conv_id :: nat
  user_id :: user_id
  title :: string
  conv_created_at :: timestamp
  updated_at :: timestamp

record message =
  msg_id :: nat
  conversation_id :: nat
  role :: string
  content :: string
  created_at :: timestamp

section \<open>Context assembly (lines 234 to 251)\<close>

text \<open>The body of the \<open>forEach\<close> callback: one \<open>push\<close> for a user or assistant row.\<close>

definition push_rendered :: "string list \<Rightarrow> message \<Rightarrow> string list" where
  "push_rendered contextMessages msg =
     (if role msg = ''user'' then contextMessages @ [''User: '' @ content msg]
      else if role msg = ''assistant'' then contextMessages @ [''Assistant: '' @ content msg]
      else contextMessages)"

text \<open>\<open>Array.prototype.join\<close> on an array of strings.\<close>

fun join :: "string \<Rightarrow> string list \<Rightarrow> string" where
  "join sep [] = []"
| "join sep [x] = x"
| "join sep (x # y # ys) = x @ sep @ join sep (y # ys)"

text \<open>\<open>slice(0, -1)\<close>: every element but the last; the empty array stays empty.\<close>

definition slice_0_minus1 :: "'a list \<Rightarrow> 'a list" where
  "slice_0_minus1 xs = take (length xs - 1) xs"

definition fullContext :: "message list \<Rightarrow> string \<Rightarrow> string" where
  "fullContext history prompt =
     (let contextMessages = foldl push_rendered [] history;
          contextMessages = contextMessages @ [''User: '' @ prompt]
      in if length history > 0
         then (let previousMessages = join ''\<newline>'' (slice_0_minus1 contextMessages)
               in ''Previous conversation:\<newline>'' @ previousMessages
                  @ ''\<newline>\<newline>Current message:\<newline>'' @ prompt
                  @ ''\<newline>\<newline>Please respond remembering our previous conversation and maintain context.'')
         else prompt)"

text \<open>
  The rendering as the specification words it: a prior message of role \<open>user\<close> or
  \<open>assistant\<close> becomes one line, a message of any other role none.
\<close>

definition spec_rendered_line :: "message \<Rightarrow> string" where
  "spec_rendered_line m =
     (if role m = ''user'' then ''User: '' else ''Assistant: '') @ content m"

definition spec_rendered_prior_turns :: "message list \<Rightarrow> string" where
  "spec_rendered_prior_turns history =
     join ''\<newline>''
       (map spec_rendered_line
          (filter (\<lambda>m. role m = ''user'' \<or> role m = ''assistant'') history))"

section \<open>The external services\<close>

text \<open>
  The record store and the completion service are outside the repository. The store is
  an abstract keyed record store: two tables, and the identifiers it will hand out next.
\<close>

record store =
  conversations :: "conversation list"
  messages :: "message list"
  next_conv_id :: nat
  next_msg_id :: nat

text \<open>
  Every function that calls the store or the completion service also returns the calls
  it made, in order, so that the order of the effects of a request can be stated.
\<close>

datatype event =
    SelectConversation nat user_id
  | InsertConversation user_id string
  | SelectMessages nat nat
  | InsertMessage nat string string
  | UpdateTitle nat string
  | GenerateContent string string

text \<open>
  What the services answer during one request is an input of the model: whether each
  store call fails (and with which error), the clock read by each \<open>new Date()\<close>, the
  answer of the identity service to a token, and the completion service as a function of
  the model identifier and the text sent to it.
\<close>

datatype auth_result = AuthUser user_id | AuthError | AuthThrows

record env =
  getUser :: "string \<Rightarrow> auth_result"
  select_conversation_error :: "js_error option"
  insert_conversation_error :: "js_error option"
  insert_conversation_now :: "timestamp \<times> timestamp"
  select_messages_error :: "js_error option"
  insert_user_message_error :: "js_error option"
  insert_user_message_now :: timestamp
  generateContent :: "string \<Rightarrow> string \<Rightarrow> js_error + string"
  insert_assistant_message_error :: "js_error option"
  insert_assistant_message_now :: timestamp
  update_title_error :: "js_error option"

text \<open>\<open>.single()\<close>: the query succeeds only with exactly one row.\<close>

definition single :: "js_error option \<Rightarrow> 'a list \<Rightarrow> js_error + 'a" where
  "single err rows =
     (case err of
        Some e \<Rightarrow> Inl e
      | None \<Rightarrow>
          (case rows of
             [r] \<Rightarrow> Inr r
           | _ \<Rightarrow> Inl ''JSON object requested, multiple (or no) rows returned''))"

text \<open>The store never hands out an identifier twice, and rows only refer to identifiers
  it has handed out.\<close>

definition wf_store :: "store \<Rightarrow> bool" where
  "wf_store s \<longleftrightarrow>
     list_all (\<lambda>c. conv_id c < next_conv_id s) (conversations s)
     \<and> list_all (\<lambda>m. conversation_id m < next_conv_id s) (messages s)
     \<and> distinct (map conv_id (conversations s))"

section \<open>Helper functions (lines 92 to 171)\<close>

text \<open>
  The lookup is made only for a truthy \<open>conversationId\<close>; whatever makes it fail (no row
  of that id and owner, several rows, an error of the store) leads to the insert.
\<close>

definition getOrCreateConversation ::
  "js_error option \<Rightarrow> js_error option \<Rightarrow> timestamp \<times> timestamp \<Rightarrow>
   user_id \<Rightarrow> nat option \<Rightarrow> string \<Rightarrow> store \<Rightarrow>
   (js_error + conversation) \<times> store \<times> event list" where
  "getOrCreateConversation select_error insert_error now userId conversationId title' s =
     (let looked_up =
        (case conversationId of
           None \<Rightarrow> (None, [])
         | Some i \<Rightarrow>
             (case single select_error
                     (filter (\<lambda>c. conv_id c = i \<and> user_id c = userId) (conversations s)) of
                Inr data \<Rightarrow> (Some data, [SelectConversation i userId])
              | Inl _ \<Rightarrow> (None, [SelectConversation i userId])))
      in case looked_up of
           (Some data, evs) \<Rightarrow> (Inr data, s, evs)
         | (None, evs) \<Rightarrow>
             (case insert_error of
                Some e \<Rightarrow> (Inl e, s, evs @ [InsertConversation userId title'])
              | None \<Rightarrow>
                  (let data = \<lparr>conv_id = next_conv_id s, user_id = userId, title = title',
                               conv_created_at = fst now, updated_at = snd now\<rparr>
                   in (Inr data,
                       s\<lparr>conversations := conversations s @ [data],
                         next_conv_id := Suc (next_conv_id s)\<rparr>,
                       evs @ [InsertConversation userId title']))))"

definition getConversationHistory ::
  "js_error option \<Rightarrow> nat \<Rightarrow> nat \<Rightarrow> store \<Rightarrow> (js_error + message list) \<times> event list" where
  "getConversationHistory select_error conversationId limit s =
     (case select_error of
        Some e \<Rightarrow> (Inl e, [SelectMessages conversationId limit])
      | None \<Rightarrow>
          (Inr (take limit
                  (sort_key created_at
                     (filter (\<lambda>m. conversation_id m = conversationId) (messages s)))),
           [SelectMessages conversationId limit]))"

text \<open>The default of the parameter \<open>limit\<close>; both callers leave it out.\<close>

definition default_limit :: nat where
  "default_limit = 20"

definition saveMessage ::
  "js_error option \<Rightarrow> timestamp \<Rightarrow> nat \<Rightarrow> string \<Rightarrow> string \<Rightarrow> store \<Rightarrow>
   (js_error + message) \<times> store \<times> event list" where
  "saveMessage insert_error now conversationId role' content' s =
     (case insert_error of
        Some e \<Rightarrow> (Inl e, s, [InsertMessage conversationId role' content'])
      | None \<Rightarrow>
          (let data = \<lparr>msg_id = next_msg_id s, conversation_id = conversationId,
                       role = role', content = content', created_at = now\<rparr>
           in (Inr data,
               s\<lparr>messages := messages s @ [data], next_msg_id := Suc (next_msg_id s)\<rparr>,
               [InsertMessage conversationId role' content'])))"

text \<open>The update of lines 262 to 267. Its result is not inspected by the caller.\<close>

definition update_title :: "js_error option \<Rightarrow> nat \<Rightarrow> string \<Rightarrow> store \<Rightarrow> store \<times> event list" where
  "update_title update_error i t s =
     (case update_error of
        Some _ \<Rightarrow> (s, [UpdateTitle i t])
      | None \<Rightarrow>
          (s\<lparr>conversations :=
                map (\<lambda>c. if conv_id c = i then c\<lparr>title := t\<rparr> else c) (conversations s)\<rparr>,
           [UpdateTitle i t]))"

section \<open>Authentication and routes\<close>

text \<open>A response: the chat reply (\<open>content\<close>, \<open>conversation_id\<close>, \<open>model_used\<close>), a
  list of messages, or an error body with its status (\<open>error\<close> and, on the chat route,
  \<open>details\<close>).\<close>

datatype response =
    ChatReply string nat jsval
  | MessageList "message list"
  | Failure nat string "string option"

definition verifyAuth :: "(string \<Rightarrow> auth_result) \<Rightarrow> string option \<Rightarrow> response + user_id" where
  "verifyAuth get_user authorization =
     (case authorization of
        None \<Rightarrow> Inl (Failure 401 ''Missing or invalid authorization header'' None)
      | Some authHeader \<Rightarrow>
          if authHeader = [] \<or> \<not> prefix ''Bearer '' authHeader
          then Inl (Failure 401 ''Missing or invalid authorization header'' None)
          else (case get_user (drop 7 authHeader) of
                  AuthUser user \<Rightarrow> Inr user
                | AuthError \<Rightarrow> Inl (Failure 401 ''Invalid or expired token'' None)
                | AuthThrows \<Rightarrow> Inl (Failure 401 ''Authentication failed'' None)))"

text \<open>\<open>GET /api/conversations/:id/messages\<close> (lines 204 to 213): the handler after
  \<open>verifyAuth\<close>, with \<open>req.user\<close> as \<open>user\<close>, and the route with its middleware.\<close>

definition get_messages :: "env \<Rightarrow> user_id \<Rightarrow> nat \<Rightarrow> store \<Rightarrow> response \<times> store \<times> event list" where
  "get_messages e user conversationId s =
     (case getConversationHistory (select_messages_error e) conversationId default_limit s of
        (Inr msgs, evs) \<Rightarrow> (MessageList msgs, s, evs)
      | (Inl _, evs) \<Rightarrow> (Failure 500 ''Failed to fetch messages'' None, s, evs))"

definition route_get_messages ::
  "env \<Rightarrow> string option \<Rightarrow> nat \<Rightarrow> store \<Rightarrow> response \<times> store \<times> event list" where
  "route_get_messages e authorization conversationId s =
     (case verifyAuth (getUser e) authorization of
        Inl r \<Rightarrow> (r, s, [])
      | Inr user \<Rightarrow> get_messages e user conversationId s)"

text \<open>
  The body of \<open>POST /api/chat\<close>. \<open>body_conversation_id\<close> is \<open>None\<close> when the field is
  absent or falsy; identifiers are opaque keys, so a supplied one is truthy.
\<close>

record body =
  prompt :: jsval
  body_conversation_id :: "nat option"
  model_name :: jsval

text \<open>The model instance of line 43, the only one the process ever calls.\<close>

definition model :: string where
  "model = ''gemini-2.0-flash-exp''"

text \<open>The \<open>catch\<close> block of the chat route (lines 276 to 289).\<close>

definition chat_catch :: "js_error \<Rightarrow> response" where
  "chat_catch msg =
     (if msg \<noteq> [] \<and> sublist ''API_KEY'' msg
      then Failure 500 ''Invalid or missing Gemini API key. Please check your configuration.'' None
      else Failure 500 ''Failed to generate response. Please try again.'' (Some msg))"

text \<open>The title written after a first turn (line 265).\<close>

definition final_title :: "string \<Rightarrow> string" where
  "final_title p = take 50 p @ (if length p > 50 then ''...'' else [])"

text \<open>Lines 231 to 274: the turn once the conversation is resolved.\<close>

definition chat_in_conversation ::
  "env \<Rightarrow> conversation \<Rightarrow> string \<Rightarrow> jsval \<Rightarrow> store \<Rightarrow> response \<times> store \<times> event list" where
  "chat_in_conversation e conversation p model_name' s =
     (case getConversationHistory (select_messages_error e) (conv_id conversation)
             default_limit s of
        (Inl err, ev2) \<Rightarrow> (chat_catch err, s, ev2)
      | (Inr history, ev2) \<Rightarrow>
     (case saveMessage (insert_user_message_error e) (insert_user_message_now e)
             (conv_id conversation) ''user'' p s of
        (Inl err, s3, ev3) \<Rightarrow> (chat_catch err, s3, ev2 @ ev3)
      | (Inr _, s3, ev3) \<Rightarrow>
     (let ev4 = [GenerateContent model (fullContext history p)]
      in case generateContent e model (fullContext history p) of
           Inl err \<Rightarrow> (chat_catch err, s3, ev2 @ ev3 @ ev4)
         | Inr aiResponse \<Rightarrow>
     (case saveMessage (insert_assistant_message_error e) (insert_assistant_message_now e)
             (conv_id conversation) ''assistant'' aiResponse s3 of
        (Inl err, s5, ev5) \<Rightarrow> (chat_catch err, s5, ev2 @ ev3 @ ev4 @ ev5)
      | (Inr _, s5, ev5) \<Rightarrow>
          (case (if length history = 0
                 then update_title (update_title_error e) (conv_id conversation)
                        (final_title p) s5
                 else (s5, [])) of
             (s6, ev6) \<Rightarrow>
               (ChatReply aiResponse (conv_id conversation) model_name', s6,
                ev2 @ ev3 @ ev4 @ ev5 @ ev6))))))"

text \<open>Lines 225 to 274, for a prompt that is a non-empty string.\<close>

definition chat_turn ::
  "env \<Rightarrow> user_id \<Rightarrow> string \<Rightarrow> nat option \<Rightarrow> jsval \<Rightarrow> store \<Rightarrow>
   response \<times> store \<times> event list" where
  "chat_turn e user p conversationId model_name' s =
     (case getOrCreateConversation (select_conversation_error e) (insert_conversation_error e)
             (insert_conversation_now e) user conversationId (take 50 p @ ''...'') s of
        (Inl err, s1, ev1) \<Rightarrow> (chat_catch err, s1, ev1)
      | (Inr conversation, s1, ev1) \<Rightarrow>
          (case chat_in_conversation e conversation p model_name' s1 of
             (r, s', evs) \<Rightarrow> (r, s', ev1 @ evs)))"

text \<open>
  The handler of \<open>POST /api/chat\<close> (lines 215 to 290) after \<open>verifyAuth\<close>, with
  \<open>req.user.id\<close> as \<open>user\<close>. A truthy prompt that is not a string has no \<open>substring\<close>
  method: line 223 throws, and the \<open>catch\<close> block answers.
\<close>

definition post_chat :: "env \<Rightarrow> user_id \<Rightarrow> body \<Rightarrow> store \<Rightarrow> response \<times> store \<times> event list" where
  "post_chat e user b s =
     (let model_name' = (if model_name b = Undefined then JStr ''gemini-2.0-flash-exp''
                         else model_name b)
      in if \<not> truthy (prompt b)
         then (Failure 400 ''Missing required parameter: prompt'' None, s, [])
         else (case prompt b of
                 JStr p \<Rightarrow> chat_turn e user p (body_conversation_id b) model_name' s
               | _ \<Rightarrow> (chat_catch ''prompt.substring is not a function'', s, [])))"

definition route_post_chat ::
  "env \<Rightarrow> string option \<Rightarrow> body \<Rightarrow> store \<Rightarrow> response \<times> store \<times> event list" where
  "route_post_chat e authorization b s =
     (case verifyAuth (getUser e) authorization of
        Inl r \<Rightarrow> (r, s, [])
      | Inr user \<Rightarrow> post_chat e user b s)"

section \<open>Example inputs\<close>

text \<open>
  An identity service that knows two tokens, a store that answers every call, and a
  completion service that always replies \<open>hello\<close>.
\<close>

definition demo_env :: env where
  "demo_env =
     \<lparr>getUser = (\<lambda>token. if token = ''alice-token'' then AuthUser ''alice''
                          else if token = ''bob-token'' then AuthUser ''bob''
                          else AuthError),
      select_conversation_error = None,
      insert_conversation_error = None,
      insert_conversation_now = (100, 100),
      select_messages_error = None,
      insert_user_message_error = None,
      insert_user_message_now = 101,
      generateContent = (\<lambda>m ctx. Inr ''hello''),
      insert_assistant_message_error = None,
      insert_assistant_message_now = 102,
      update_title_error = None\<rparr>"

text \<open>
  Two conversations of \<open>alice\<close>: number 0 with one completed turn, number 1 without any
  message (as a turn leaves it whose first \<open>saveMessage\<close> failed).
\<close>

definition demo_store :: store where
  "demo_store =
     \<lparr>conversations =
        [\<lparr>conv_id = 0, user_id = ''alice'', title = ''Greetings'',
          conv_created_at = 10, updated_at = 10\<rparr>,
         \<lparr>conv_id = 1, user_id = ''alice'', title = ''Plans for the week...'',
          conv_created_at = 20, updated_at = 20\<rparr>],
      messages =
        [\<lparr>msg_id = 0, conversation_id = 0, role = ''user'', content = ''hi'',
          created_at = 11\<rparr>,
         \<lparr>msg_id = 1, conversation_id = 0, role = ''assistant'', content = ''hello'',
          created_at = 12\<rparr>],
      next_conv_id = 2,
      next_msg_id = 2\<rparr>"

text \<open>The same services with a completion service that rejects every call.\<close>

definition failing_env :: env where
  "failing_env = demo_env\<lparr>generateContent := (\<lambda>m ctx. Inl ''503 Service Unavailable'')\<rparr>"


text \<open>A conversation of 21 messages, one per second, stored newest first.\<close>

definition long_store :: store where
  "long_store =
     \<lparr>conversations =
        [\<lparr>conv_id = 0, user_id = ''alice'', title = ''Greetings'',
          conv_created_at = 10, updated_at = 10\<rparr>],
      messages =
        map (\<lambda>k. \<lparr>msg_id = k, conversation_id = 0,
                   role = (if even k then ''assistant'' else ''user''), content = ''m'',
                   created_at = 1020 - k\<rparr>) [0..<21],
      next_conv_id = 1,
      next_msg_id = 21\<rparr>"

section \<open>Properties of the context assembly\<close>

lemma foldl_push_rendered:
  "foldl push_rendered acc history =
     acc @ map spec_rendered_line
             (filter (\<lambda>m. role m = ''user'' \<or> role m = ''assistant'') history)"
  by (induction history arbitrary: acc) (auto simp: push_rendered_def spec_rendered_line_def)

lemma slice_0_minus1_snoc: "slice_0_minus1 (xs @ [x]) = xs"
  by (simp add: slice_0_minus1_def)

text \<open>
  C9. With an empty sequence of prior messages the assembled text is the prompt itself,
  for every prompt.
\<close>

theorem fullContext_empty_history: "fullContext [] p = p"
  by (simp add: fullContext_def)

text \<open>
  C3. For a non-empty sequence of prior messages the assembled text is the header
  \<open>Previous conversation:\<close>, the prior turns rendered as \<open>User: ...\<close> and
  \<open>Assistant: ...\<close> lines joined by newlines (other roles dropped), an empty line, the
  header \<open>Current message:\<close>, the prompt, an empty line and the closing sentence; the
  prior messages user "hi", assistant "hello" with the prompt "how are you" give exactly
  the text of the specification.
\<close>

theorem fullContext_nonempty_history:
  assumes "history \<noteq> []"
  shows "fullContext history p =
           ''Previous conversation:\<newline>'' @ spec_rendered_prior_turns history
           @ ''\<newline>\<newline>Current message:\<newline>'' @ p
           @ ''\<newline>\<newline>Please respond remembering our previous conversation and maintain context.''
         \<and> fullContext
             [\<lparr>msg_id = i, conversation_id = c, role = ''user'', content = ''hi'', created_at = t\<rparr>,
              \<lparr>msg_id = i', conversation_id = c, role = ''assistant'', content = ''hello'',
               created_at = t'\<rparr>]
             ''how are you''
           = ''Previous conversation:\<newline>User: hi\<newline>Assistant: hello\<newline>\<newline>Current message:\<newline>how are you\<newline>\<newline>Please respond remembering our previous conversation and maintain context.''"
proof
  show "fullContext history p =
           ''Previous conversation:\<newline>'' @ spec_rendered_prior_turns history
           @ ''\<newline>\<newline>Current message:\<newline>'' @ p
           @ ''\<newline>\<newline>Please respond remembering our previous conversation and maintain context.''"
    using assms
    by (simp add: fullContext_def Let_def foldl_push_rendered slice_0_minus1_snoc
        spec_rendered_prior_turns_def)
next
  show "fullContext
             [\<lparr>msg_id = i, conversation_id = c, role = ''user'', content = ''hi'', created_at = t\<rparr>,
              \<lparr>msg_id = i', conversation_id = c, role = ''assistant'', content = ''hello'',
               created_at = t'\<rparr>]
             ''how are you''
           = ''Previous conversation:\<newline>User: hi\<newline>Assistant: hello\<newline>\<newline>Current message:\<newline>how are you\<newline>\<newline>Please respond remembering our previous conversation and maintain context.''"
    by (simp add: fullContext_def Let_def push_rendered_def slice_0_minus1_def)
qed

theorem fullContext_nonempty_history_witness:
  "messages demo_store \<noteq> []
   \<and> fullContext (messages demo_store) ''how are you'' =
       ''Previous conversation:\<newline>User: hi\<newline>Assistant: hello\<newline>\<newline>Current message:\<newline>how are you\<newline>\<newline>Please respond remembering our previous conversation and maintain context.''"
proof -
  have nonempty: "messages demo_store \<noteq> []"
    by (simp add: demo_store_def)
  have "fullContext (messages demo_store) ''how are you'' =
           ''Previous conversation:\<newline>'' @ spec_rendered_prior_turns (messages demo_store)
           @ ''\<newline>\<newline>Current message:\<newline>'' @ ''how are you''
           @ ''\<newline>\<newline>Please respond remembering our previous conversation and maintain context.''"
    using fullContext_nonempty_history [OF nonempty, of "''how are you''"]
    by (rule conjunct1)
  then show ?thesis
    using nonempty
    by (simp add: demo_store_def spec_rendered_prior_turns_def spec_rendered_line_def)
qed

section \<open>Properties of the chat turn\<close>

lemma filter_fresh_empty:
  "wf_store s \<Longrightarrow> filter (\<lambda>m. conversation_id m = next_conv_id s) (messages s) = []"
  by (auto simp: wf_store_def list_all_iff filter_empty_conv)

lemma map_title_fresh:
  "wf_store s \<Longrightarrow>
   map (\<lambda>c. if conv_id c = next_conv_id s then c\<lparr>title := t\<rparr> else c) (conversations s)
     = conversations s"
  by (rule map_idI) (auto simp: wf_store_def list_all_iff)

lemma route_post_chat_authenticated:
  "verifyAuth (getUser e) authorization = Inr u \<Longrightarrow>
   route_post_chat e authorization b s = post_chat e u b s"
  by (simp add: route_post_chat_def)

lemma post_chat_string_prompt:
  "prompt b = JStr p \<Longrightarrow> p \<noteq> [] \<Longrightarrow>
   post_chat e u b s =
     chat_turn e u p (body_conversation_id b)
       (if model_name b = Undefined then JStr ''gemini-2.0-flash-exp'' else model_name b) s"
  by (simp add: post_chat_def)

lemmas chat_evaluation =
  route_post_chat_def post_chat_def chat_turn_def chat_in_conversation_def
  getOrCreateConversation_def getConversationHistory_def saveMessage_def update_title_def
  single_def default_limit_def fullContext_def final_title_def verifyAuth_def model_def
  chat_catch_def push_rendered_def slice_0_minus1_def Let_def

lemma chat_turn_new:
  assumes "wf_store s"
    and "insert_conversation_error e = None" and "select_messages_error e = None"
    and "insert_user_message_error e = None" and "generateContent e model p = Inr reply"
    and "insert_assistant_message_error e = None"
  shows "chat_turn e u p None mn s =
    (ChatReply reply (next_conv_id s) mn,
     s\<lparr>conversations := conversations s @
          [\<lparr>conv_id = next_conv_id s, user_id = u,
            title = (if update_title_error e = None then final_title p
                     else take 50 p @ ''...''),
            conv_created_at = fst (insert_conversation_now e),
            updated_at = snd (insert_conversation_now e)\<rparr>],
       messages := messages s @
          [\<lparr>msg_id = next_msg_id s, conversation_id = next_conv_id s, role = ''user'',
            content = p, created_at = insert_user_message_now e\<rparr>,
           \<lparr>msg_id = Suc (next_msg_id s), conversation_id = next_conv_id s,
            role = ''assistant'', content = reply,
            created_at = insert_assistant_message_now e\<rparr>],
       next_conv_id := Suc (next_conv_id s),
       next_msg_id := Suc (Suc (next_msg_id s))\<rparr>,
     [InsertConversation u (take 50 p @ ''...''), SelectMessages (next_conv_id s) 20,
      InsertMessage (next_conv_id s) ''user'' p, GenerateContent model p,
      InsertMessage (next_conv_id s) ''assistant'' reply,
      UpdateTitle (next_conv_id s) (final_title p)])"
proof (cases "update_title_error e")
  case None
  then show ?thesis
    using assms
    by (simp add: chat_turn_def chat_in_conversation_def getOrCreateConversation_def
        getConversationHistory_def saveMessage_def update_title_def default_limit_def
        filter_fresh_empty map_title_fresh fullContext_def Let_def)
next
  case (Some err)
  then show ?thesis
    using assms
    by (simp add: chat_turn_def chat_in_conversation_def getOrCreateConversation_def
        getConversationHistory_def saveMessage_def update_title_def default_limit_def
        filter_fresh_empty fullContext_def Let_def)
qed

lemma chat_turn_new_events:
  "prefix [InsertConversation u (take 50 p @ ''...'')]
     (snd (snd (chat_turn e u p None mn s)))"
  by (simp add: chat_turn_def getOrCreateConversation_def Let_def split_beta
      split: option.splits)

lemma demo_auth_alice:
  "verifyAuth (getUser demo_env) (Some ''Bearer alice-token'') = Inr ''alice''"
  by (simp add: verifyAuth_def demo_env_def)

lemma demo_auth_bob:
  "verifyAuth (getUser demo_env) (Some ''Bearer bob-token'') = Inr ''bob''"
  by (simp add: verifyAuth_def demo_env_def)

lemma wf_demo_store: "wf_store demo_store"
  by (simp add: wf_store_def demo_store_def)




text \<open>
  C8. An authenticated chat request whose body has no \<open>prompt\<close> is answered with status
  400, the store is left as it was and no call reaches the store or the completion
  service.
\<close>

theorem chat_without_prompt:
  assumes "verifyAuth (getUser e) authorization = Inr u" and "prompt b = Undefined"
  shows "route_post_chat e authorization b s =
           (Failure 400 ''Missing required parameter: prompt'' None, s, [])"
  using assms by (simp add: route_post_chat_def post_chat_def)

theorem chat_without_prompt_witness:
  "verifyAuth (getUser demo_env) (Some ''Bearer alice-token'') = Inr ''alice''
   \<and> route_post_chat demo_env (Some ''Bearer alice-token'')
        \<lparr>prompt = Undefined, body_conversation_id = Some 0, model_name = Undefined\<rparr>
        demo_store =
      (Failure 400 ''Missing required parameter: prompt'' None, demo_store, [])"
  using chat_without_prompt
          [of demo_env "Some ''Bearer alice-token''" "''alice''"
              "\<lparr>prompt = Undefined, body_conversation_id = Some 0, model_name = Undefined\<rparr>"
              demo_store,
           OF demo_auth_alice]
  by (simp add: demo_auth_alice)

lemma chat_turn_unresolved:
  assumes "filter (\<lambda>c. conv_id c = i \<and> user_id c = u) (conversations s) = []"
  shows "chat_turn e u p (Some i) mn s =
          (case chat_turn e u p None mn s of
             (r, s', evs) \<Rightarrow> (r, s', SelectConversation i u # evs))"
  using assms
  by (simp add: chat_turn_def getOrCreateConversation_def single_def Let_def
       split: option.splits prod.splits)

lemma getOrCreateConversation_resolved:
  assumes "filter (\<lambda>c. conv_id c = i \<and> user_id c = u) (conversations s) = [c]"
  shows "getOrCreateConversation None insert_error now u (Some i) t s =
           (Inr c, s, [SelectConversation i u])"
    and "conv_id c = i"
proof -
  show "getOrCreateConversation None insert_error now u (Some i) t s =
           (Inr c, s, [SelectConversation i u])"
    using assms by (simp add: getOrCreateConversation_def single_def)
  have "c \<in> set (filter (\<lambda>c. conv_id c = i \<and> user_id c = u) (conversations s))"
    using assms by simp
  then show "conv_id c = i" by simp
qed

lemma history_nonempty:
  "take 20 (sort_key created_at (filter (\<lambda>m. conversation_id m = i) (messages s))) \<noteq> [] \<longleftrightarrow>
   (\<exists>m \<in> set (messages s). conversation_id m = i)"
proof -
  have "take 20 (sort_key created_at (filter (\<lambda>m. conversation_id m = i) (messages s))) = [] \<longleftrightarrow>
        filter (\<lambda>m. conversation_id m = i) (messages s) = []"
    by (metis length_0_conv length_sort take_eq_Nil zero_neq_numeral)
  then show ?thesis by (auto simp: filter_empty_conv)
qed

lemma getConversationHistory_ok:
  "getConversationHistory None i default_limit s =
     (Inr (take 20 (sort_key created_at (filter (\<lambda>m. conversation_id m = i) (messages s)))),
      [SelectMessages i 20])"
  by (simp add: getConversationHistory_def default_limit_def)

lemma chat_in_conversation_replied:
  assumes "getConversationHistory (select_messages_error e) (conv_id c) default_limit s
             = (Inr h, ev2)"
    and "insert_user_message_error e = None"
    and "generateContent e model (fullContext h p) = Inr reply"
    and "insert_assistant_message_error e = None"
  shows "fst (chat_in_conversation e c p mn s) = ChatReply reply (conv_id c) mn"
    and "messages (fst (snd (chat_in_conversation e c p mn s))) = messages s @
          [\<lparr>msg_id = next_msg_id s, conversation_id = conv_id c, role = ''user'',
            content = p, created_at = insert_user_message_now e\<rparr>,
           \<lparr>msg_id = Suc (next_msg_id s), conversation_id = conv_id c, role = ''assistant'',
            content = reply, created_at = insert_assistant_message_now e\<rparr>]"
    and "h \<noteq> [] \<Longrightarrow>
          conversations (fst (snd (chat_in_conversation e c p mn s))) = conversations s"
  using assms
  by (simp_all add: chat_in_conversation_def saveMessage_def update_title_def Let_def
      split: option.splits)

text \<open>
  C2 as the code has it. An authenticated chat request with a non-empty prompt and a
  conversation id that resolves to a conversation of the caller, whose store calls succeed
  and whose completion call returns a reply, appends exactly two messages to that
  conversation (the prompt as \<open>user\<close>, the reply as \<open>assistant\<close>); when the conversation
  already held a message, the table of conversations, titles included, is left as it was.
\<close>

theorem chat_in_owned_conversation:
  assumes "verifyAuth (getUser e) authorization = Inr u"
    and "prompt b = JStr p" and "p \<noteq> []" and "body_conversation_id b = Some i"
    and "select_conversation_error e = None"
    and "filter (\<lambda>c. conv_id c = i \<and> user_id c = u) (conversations s) = [c]"
    and "select_messages_error e = None" and "insert_user_message_error e = None"
    and "generateContent e model
           (fullContext (take 20 (sort_key created_at
               (filter (\<lambda>m. conversation_id m = i) (messages s)))) p) = Inr reply"
    and "insert_assistant_message_error e = None"
  shows "fst (route_post_chat e authorization b s) =
           ChatReply reply i
             (if model_name b = Undefined then JStr ''gemini-2.0-flash-exp'' else model_name b)
       \<and> messages (fst (snd (route_post_chat e authorization b s))) = messages s @
          [\<lparr>msg_id = next_msg_id s, conversation_id = i, role = ''user'',
            content = p, created_at = insert_user_message_now e\<rparr>,
           \<lparr>msg_id = Suc (next_msg_id s), conversation_id = i, role = ''assistant'',
            content = reply, created_at = insert_assistant_message_now e\<rparr>]
       \<and> ((\<exists>m \<in> set (messages s). conversation_id m = i) \<longrightarrow>
            conversations (fst (snd (route_post_chat e authorization b s))) = conversations s)"
proof -
  define mn where
    "mn = (if model_name b = Undefined then JStr ''gemini-2.0-flash-exp'' else model_name b)"
  let ?h = "take 20 (sort_key created_at (filter (\<lambda>m. conversation_id m = i) (messages s)))"
  have ci: "conv_id c = i"
    using getOrCreateConversation_resolved(2) [OF assms(6)] .
  have "route_post_chat e authorization b s = chat_turn e u p (Some i) mn s"
    using assms(1-4) by (simp add: route_post_chat_authenticated post_chat_string_prompt mn_def)
  also have "\<dots> = (case chat_in_conversation e c p mn s of
                      (r, s', evs) \<Rightarrow> (r, s', SelectConversation i u # evs))"
    using assms(5) getOrCreateConversation_resolved(1) [OF assms(6)]
    by (simp add: chat_turn_def)
  finally have route: "route_post_chat e authorization b s =
      (case chat_in_conversation e c p mn s of
         (r, s', evs) \<Rightarrow> (r, s', SelectConversation i u # evs))" .
  have r1: "fst (route_post_chat e authorization b s) = fst (chat_in_conversation e c p mn s)"
    and r2: "fst (snd (route_post_chat e authorization b s))
               = fst (snd (chat_in_conversation e c p mn s))"
    by (simp_all add: route split_beta)
  have hist: "getConversationHistory (select_messages_error e) (conv_id c) default_limit s
                = (Inr ?h, [SelectMessages i 20])"
    using assms(7) ci by (simp add: getConversationHistory_ok)
  have gen: "generateContent e model (fullContext ?h p) = Inr reply"
    using assms(9) .
  note turn = chat_in_conversation_replied [OF hist assms(8) gen assms(10), of mn]
  have "fst (route_post_chat e authorization b s) = ChatReply reply i mn"
    using turn(1) ci by (simp add: r1)
  moreover have "messages (fst (snd (route_post_chat e authorization b s))) = messages s @
          [\<lparr>msg_id = next_msg_id s, conversation_id = i, role = ''user'',
            content = p, created_at = insert_user_message_now e\<rparr>,
           \<lparr>msg_id = Suc (next_msg_id s), conversation_id = i, role = ''assistant'',
            content = reply, created_at = insert_assistant_message_now e\<rparr>]"
    using turn(2) ci by (simp add: r2)
  moreover have "conversations (fst (snd (route_post_chat e authorization b s))) = conversations s"
    if "\<exists>m \<in> set (messages s). conversation_id m = i"
  proof -
    from that have "?h \<noteq> []" by (simp only: history_nonempty)
    then show ?thesis using turn(3) by (simp add: r2)
  qed
  ultimately show ?thesis unfolding mn_def by blast
qed


theorem chat_in_owned_conversation_witness:
  "verifyAuth (getUser demo_env) (Some ''Bearer alice-token'') = Inr ''alice''
   \<and> filter (\<lambda>c. conv_id c = 0 \<and> user_id c = ''alice'') (conversations demo_store) =
       [\<lparr>conv_id = 0, user_id = ''alice'', title = ''Greetings'',
         conv_created_at = 10, updated_at = 10\<rparr>]
   \<and> fst (route_post_chat demo_env (Some ''Bearer alice-token'')
            \<lparr>prompt = JStr ''how are you'', body_conversation_id = Some 0,
             model_name = Undefined\<rparr> demo_store) =
        ChatReply ''hello'' 0 (JStr ''gemini-2.0-flash-exp'')
   \<and> messages (fst (snd (route_post_chat demo_env (Some ''Bearer alice-token'')
            \<lparr>prompt = JStr ''how are you'', body_conversation_id = Some 0,
             model_name = Undefined\<rparr> demo_store))) =
        messages demo_store @
          [\<lparr>msg_id = 2, conversation_id = 0, role = ''user'', content = ''how are you'',
            created_at = 101\<rparr>,
           \<lparr>msg_id = 3, conversation_id = 0, role = ''assistant'', content = ''hello'',
            created_at = 102\<rparr>]
   \<and> conversations (fst (snd (route_post_chat demo_env (Some ''Bearer alice-token'')
            \<lparr>prompt = JStr ''how are you'', body_conversation_id = Some 0,
             model_name = Undefined\<rparr> demo_store))) = conversations demo_store"
proof -
  have owned: "filter (\<lambda>c. conv_id c = 0 \<and> user_id c = ''alice'') (conversations demo_store) =
       [\<lparr>conv_id = 0, user_id = ''alice'', title = ''Greetings'',
         conv_created_at = 10, updated_at = 10\<rparr>]"
    by (simp add: demo_store_def)
  have nonempty: "\<exists>m \<in> set (messages demo_store). conversation_id m = 0"
    by (simp add: demo_store_def)
  show ?thesis
    using chat_in_owned_conversation
          [of demo_env "Some ''Bearer alice-token''" "''alice''"
              "\<lparr>prompt = JStr ''how are you'', body_conversation_id = Some 0,
                model_name = Undefined\<rparr>"
              "''how are you''" 0 demo_store _ "''hello''",
           OF demo_auth_alice _ _ _ _ owned]
      nonempty owned
    by (simp add: demo_auth_alice) (simp add: demo_env_def demo_store_def)
qed

text \<open>
  C2 as stated fails when the owned conversation holds no message yet: conversation 1 of
  \<open>alice\<close> is titled \<open>Plans for the week...\<close> before the turn and \<open>Dinner ideas\<close> after it.
\<close>

theorem chat_in_empty_owned_conversation_retitles:
  "verifyAuth (getUser demo_env) (Some ''Bearer alice-token'') = Inr ''alice''
   \<and> conversations demo_store =
       [\<lparr>conv_id = 0, user_id = ''alice'', title = ''Greetings'',
         conv_created_at = 10, updated_at = 10\<rparr>,
        \<lparr>conv_id = 1, user_id = ''alice'', title = ''Plans for the week...'',
         conv_created_at = 20, updated_at = 20\<rparr>]
   \<and> route_post_chat demo_env (Some ''Bearer alice-token'')
        \<lparr>prompt = JStr ''Dinner ideas'', body_conversation_id = Some 1,
         model_name = Undefined\<rparr> demo_store =
      (ChatReply ''hello'' 1 (JStr ''gemini-2.0-flash-exp''),
       \<lparr>conversations =
          [\<lparr>conv_id = 0, user_id = ''alice'', title = ''Greetings'',
            conv_created_at = 10, updated_at = 10\<rparr>,
           \<lparr>conv_id = 1, user_id = ''alice'', title = ''Dinner ideas'',
            conv_created_at = 20, updated_at = 20\<rparr>],
        messages = messages demo_store @
          [\<lparr>msg_id = 2, conversation_id = 1, role = ''user'', content = ''Dinner ideas'',
            created_at = 101\<rparr>,
           \<lparr>msg_id = 3, conversation_id = 1, role = ''assistant'', content = ''hello'',
            created_at = 102\<rparr>],
        next_conv_id = 2, next_msg_id = 4\<rparr>,
       [SelectConversation 1 ''alice'', SelectMessages 1 20,
        InsertMessage 1 ''user'' ''Dinner ideas'',
        GenerateContent ''gemini-2.0-flash-exp'' ''Dinner ideas'',
        InsertMessage 1 ''assistant'' ''hello'', UpdateTitle 1 ''Dinner ideas''])
   \<and> conversations (fst (snd (route_post_chat demo_env (Some ''Bearer alice-token'')
        \<lparr>prompt = JStr ''Dinner ideas'', body_conversation_id = Some 1,
         model_name = Undefined\<rparr> demo_store)))
       \<noteq> conversations demo_store"
  by (simp add: chat_evaluation demo_env_def demo_store_def)

text \<open>
  C5. An authenticated chat request with a non-empty prompt whose conversation id matches
  no conversation of the caller (the id is unknown, or the conversation belongs to someone
  else) gets the response, and leaves the store, exactly as the same request without a
  conversation id does; the only difference is the lookup that came first. The lookup is
  followed by the insert of a conversation, and when the inserts and reads succeed and the
  completion call returns a reply, the turn is carried out in a new conversation of the
  caller: the response is the reply with the new conversation's id, one conversation and
  the two messages of the turn are added.
\<close>

theorem chat_with_unresolved_conversation_id:
  assumes "verifyAuth (getUser e) authorization = Inr u"
    and "prompt b = JStr p" and "p \<noteq> []"
    and "filter (\<lambda>c. conv_id c = i \<and> user_id c = u) (conversations s) = []"
  shows "route_post_chat e authorization (b\<lparr>body_conversation_id := Some i\<rparr>) s =
           (case route_post_chat e authorization (b\<lparr>body_conversation_id := None\<rparr>) s of
              (r, s', evs) \<Rightarrow> (r, s', SelectConversation i u # evs))
       \<and> prefix [SelectConversation i u, InsertConversation u (take 50 p @ ''...'')]
           (snd (snd (route_post_chat e authorization (b\<lparr>body_conversation_id := Some i\<rparr>) s)))
       \<and> (wf_store s \<and> insert_conversation_error e = None \<and> select_messages_error e = None
             \<and> insert_user_message_error e = None \<and> generateContent e model p = Inr reply
             \<and> insert_assistant_message_error e = None \<longrightarrow>
           fst (route_post_chat e authorization (b\<lparr>body_conversation_id := Some i\<rparr>) s) =
             ChatReply reply (next_conv_id s)
               (if model_name b = Undefined then JStr ''gemini-2.0-flash-exp''
                else model_name b)
           \<and> (\<exists>t. conversations (fst (snd (route_post_chat e authorization
                                             (b\<lparr>body_conversation_id := Some i\<rparr>) s))) =
                     conversations s @
                       [\<lparr>conv_id = next_conv_id s, user_id = u, title = t,
                         conv_created_at = fst (insert_conversation_now e),
                         updated_at = snd (insert_conversation_now e)\<rparr>])
           \<and> messages (fst (snd (route_post_chat e authorization
                                    (b\<lparr>body_conversation_id := Some i\<rparr>) s))) =
               messages s @
                 [\<lparr>msg_id = next_msg_id s, conversation_id = next_conv_id s, role = ''user'',
                   content = p, created_at = insert_user_message_now e\<rparr>,
                  \<lparr>msg_id = Suc (next_msg_id s), conversation_id = next_conv_id s,
                   role = ''assistant'', content = reply,
                   created_at = insert_assistant_message_now e\<rparr>])"
proof -
  define mn where
    "mn = (if model_name b = Undefined then JStr ''gemini-2.0-flash-exp'' else model_name b)"
  have with_id: "route_post_chat e authorization (b\<lparr>body_conversation_id := Some i\<rparr>) s
                   = chat_turn e u p (Some i) mn s"
    and without_id: "route_post_chat e authorization (b\<lparr>body_conversation_id := None\<rparr>) s
                   = chat_turn e u p None mn s"
    using assms(1-3)
    by (simp_all add: route_post_chat_authenticated post_chat_string_prompt mn_def)
  note fallback = chat_turn_unresolved [OF assms(4), of e p mn]
  have same: "route_post_chat e authorization (b\<lparr>body_conversation_id := Some i\<rparr>) s =
           (case route_post_chat e authorization (b\<lparr>body_conversation_id := None\<rparr>) s of
              (r, s', evs) \<Rightarrow> (r, s', SelectConversation i u # evs))"
    by (simp only: with_id without_id fallback)
  have calls: "prefix [SelectConversation i u, InsertConversation u (take 50 p @ ''...'')]
           (snd (snd (route_post_chat e authorization (b\<lparr>body_conversation_id := Some i\<rparr>) s)))"
    using chat_turn_new_events [of u p e mn s]
    by (simp add: with_id fallback split_beta)
  have turn: "fst (chat_turn e u p (Some i) mn s) = ChatReply reply (next_conv_id s) mn
      \<and> (\<exists>t. conversations (fst (snd (chat_turn e u p (Some i) mn s))) =
                conversations s @
                  [\<lparr>conv_id = next_conv_id s, user_id = u, title = t,
                    conv_created_at = fst (insert_conversation_now e),
                    updated_at = snd (insert_conversation_now e)\<rparr>])
      \<and> messages (fst (snd (chat_turn e u p (Some i) mn s))) =
               messages s @
                 [\<lparr>msg_id = next_msg_id s, conversation_id = next_conv_id s, role = ''user'',
                   content = p, created_at = insert_user_message_now e\<rparr>,
                  \<lparr>msg_id = Suc (next_msg_id s), conversation_id = next_conv_id s,
                   role = ''assistant'', content = reply,
                   created_at = insert_assistant_message_now e\<rparr>]"
    if "wf_store s" and "insert_conversation_error e = None"
      and "select_messages_error e = None" and "insert_user_message_error e = None"
      and "generateContent e model p = Inr reply" and "insert_assistant_message_error e = None"
    by (simp add: fallback chat_turn_new [OF that])
  show ?thesis
    using same calls turn unfolding with_id mn_def by blast
qed

theorem chat_with_unresolved_conversation_id_witness:
  "verifyAuth (getUser demo_env) (Some ''Bearer bob-token'') = Inr ''bob''
   \<and> filter (\<lambda>c. conv_id c = 0 \<and> user_id c = ''bob'') (conversations demo_store) = []
   \<and> route_post_chat demo_env (Some ''Bearer bob-token'')
        \<lparr>prompt = JStr ''hi'', body_conversation_id = Some 0, model_name = Undefined\<rparr>
        demo_store =
      (case route_post_chat demo_env (Some ''Bearer bob-token'')
              \<lparr>prompt = JStr ''hi'', body_conversation_id = None, model_name = Undefined\<rparr>
              demo_store of
         (r, s', evs) \<Rightarrow> (r, s', SelectConversation 0 ''bob'' # evs))
   \<and> fst (route_post_chat demo_env (Some ''Bearer bob-token'')
        \<lparr>prompt = JStr ''hi'', body_conversation_id = Some 0, model_name = Undefined\<rparr>
        demo_store) = ChatReply ''hello'' 2 (JStr ''gemini-2.0-flash-exp'')
   \<and> messages (fst (snd (route_post_chat demo_env (Some ''Bearer bob-token'')
        \<lparr>prompt = JStr ''hi'', body_conversation_id = Some 0, model_name = Undefined\<rparr>
        demo_store))) =
       messages demo_store @
         [\<lparr>msg_id = 2, conversation_id = 2, role = ''user'', content = ''hi'',
           created_at = 101\<rparr>,
          \<lparr>msg_id = 3, conversation_id = 2, role = ''assistant'', content = ''hello'',
           created_at = 102\<rparr>]"
proof -
  have unowned: "filter (\<lambda>c. conv_id c = 0 \<and> user_id c = ''bob'') (conversations demo_store) = []"
    by (simp add: demo_store_def)
  have answers: "wf_store demo_store \<and> insert_conversation_error demo_env = None
      \<and> select_messages_error demo_env = None \<and> insert_user_message_error demo_env = None
      \<and> generateContent demo_env model ''hi'' = Inr ''hello''
      \<and> insert_assistant_message_error demo_env = None"
    by (simp add: wf_demo_store demo_env_def)
  note fallback = chat_with_unresolved_conversation_id
            [where b = "\<lparr>prompt = JStr ''hi'', body_conversation_id = None,
                          model_name = Undefined\<rparr>" and p = "''hi''"
               and reply = "''hello''",
             OF demo_auth_bob _ _ unowned, simplified]
  have same: "route_post_chat demo_env (Some ''Bearer bob-token'')
        \<lparr>prompt = JStr ''hi'', body_conversation_id = Some 0, model_name = Undefined\<rparr>
        demo_store =
      (case route_post_chat demo_env (Some ''Bearer bob-token'')
              \<lparr>prompt = JStr ''hi'', body_conversation_id = None, model_name = Undefined\<rparr>
              demo_store of
         (r, s', evs) \<Rightarrow> (r, s', SelectConversation 0 ''bob'' # evs))"
    using fallback by (rule conjunct1)
  have turn: "fst (route_post_chat demo_env (Some ''Bearer bob-token'')
        \<lparr>prompt = JStr ''hi'', body_conversation_id = Some 0, model_name = Undefined\<rparr>
        demo_store) = ChatReply ''hello'' (next_conv_id demo_store) (JStr ''gemini-2.0-flash-exp'')
   \<and> messages (fst (snd (route_post_chat demo_env (Some ''Bearer bob-token'')
        \<lparr>prompt = JStr ''hi'', body_conversation_id = Some 0, model_name = Undefined\<rparr>
        demo_store))) =
       messages demo_store @
         [\<lparr>msg_id = next_msg_id demo_store, conversation_id = next_conv_id demo_store,
           role = ''user'', content = ''hi'',
           created_at = insert_user_message_now demo_env\<rparr>,
          \<lparr>msg_id = Suc (next_msg_id demo_store), conversation_id = next_conv_id demo_store,
           role = ''assistant'', content = ''hello'',
           created_at = insert_assistant_message_now demo_env\<rparr>]"
    using fallback answers by blast
  have concrete: "next_conv_id demo_store = 2" "next_msg_id demo_store = 2"
    "insert_user_message_now demo_env = 101" "insert_assistant_message_now demo_env = 102"
    by (simp_all add: demo_store_def demo_env_def)
  show ?thesis
    using same turn unowned demo_auth_bob by (simp add: concrete)
qed

lemma getOrCreateConversation_messages:
  "getOrCreateConversation se ie now u cid t s = (r, s1, ev1) \<Longrightarrow> messages s1 = messages s"
  by (auto simp: getOrCreateConversation_def Let_def split: option.splits sum.splits)

lemma chat_catch_status: "\<exists>msg details. chat_catch err = Failure 500 msg details"
  by (simp add: chat_catch_def)

lemma chat_in_conversation_events:
  assumes "select_messages_error e = None" and "insert_user_message_error e = None"
  shows "prefix
           [SelectMessages (conv_id c) 20, InsertMessage (conv_id c) ''user'' p,
            GenerateContent model
              (fullContext (take 20 (sort_key created_at
                 (filter (\<lambda>m. conversation_id m = conv_id c) (messages s)))) p)]
           (snd (snd (chat_in_conversation e c p mn s)))"
  using assms
  by (simp add: chat_in_conversation_def getConversationHistory_ok saveMessage_def
      update_title_def Let_def split: option.splits sum.splits)

lemma chat_in_conversation_completion_fails:
  assumes "select_messages_error e = None" and "insert_user_message_error e = None"
    and "generateContent e model
           (fullContext (take 20 (sort_key created_at
              (filter (\<lambda>m. conversation_id m = conv_id c) (messages s)))) p) = Inl err"
  shows "chat_in_conversation e c p mn s =
           (chat_catch err,
            s\<lparr>messages := messages s @
                 [\<lparr>msg_id = next_msg_id s, conversation_id = conv_id c, role = ''user'',
                   content = p, created_at = insert_user_message_now e\<rparr>],
              next_msg_id := Suc (next_msg_id s)\<rparr>,
            [SelectMessages (conv_id c) 20, InsertMessage (conv_id c) ''user'' p,
             GenerateContent model
               (fullContext (take 20 (sort_key created_at
                  (filter (\<lambda>m. conversation_id m = conv_id c) (messages s)))) p)])"
  using assms
  by (simp add: chat_in_conversation_def getConversationHistory_ok saveMessage_def Let_def)

text \<open>
  C4. In a chat turn that gets as far as the completion call (the conversation is
  resolved or created, the history is read and the prompt is saved), the insert of the
  prompt as a \<open>user\<close> message comes before the call of the completion service. If that
  call fails, the turn ends there with status 500: the store holds the user message that
  was inserted, nothing is deleted, and no \<open>assistant\<close> message is inserted.
\<close>

theorem user_message_saved_before_completion:
  assumes "verifyAuth (getUser e) authorization = Inr u"
    and "prompt b = JStr p" and "p \<noteq> []"
    and "getOrCreateConversation (select_conversation_error e) (insert_conversation_error e)
           (insert_conversation_now e) u (body_conversation_id b) (take 50 p @ ''...'') s
         = (Inr c, s1, ev1)"
    and "select_messages_error e = None" and "insert_user_message_error e = None"
    and "ctx = fullContext (take 20 (sort_key created_at
                 (filter (\<lambda>m. conversation_id m = conv_id c) (messages s)))) p"
  shows "prefix
           (ev1 @ [SelectMessages (conv_id c) 20, InsertMessage (conv_id c) ''user'' p,
                   GenerateContent model ctx])
           (snd (snd (route_post_chat e authorization b s)))
         \<and> (\<forall>err. generateContent e model ctx = Inl err \<longrightarrow>
               route_post_chat e authorization b s =
                 (chat_catch err,
                  s1\<lparr>messages := messages s @
                        [\<lparr>msg_id = next_msg_id s1, conversation_id = conv_id c,
                          role = ''user'', content = p,
                          created_at = insert_user_message_now e\<rparr>],
                     next_msg_id := Suc (next_msg_id s1)\<rparr>,
                  ev1 @ [SelectMessages (conv_id c) 20, InsertMessage (conv_id c) ''user'' p,
                         GenerateContent model ctx])
               \<and> (\<exists>msg details. chat_catch err = Failure 500 msg details))"
proof -
  define mn where
    "mn = (if model_name b = Undefined then JStr ''gemini-2.0-flash-exp'' else model_name b)"
  have msgs: "messages s1 = messages s"
    using getOrCreateConversation_messages [OF assms(4)] .
  have "route_post_chat e authorization b s = chat_turn e u p (body_conversation_id b) mn s"
    using assms(1-3) by (simp add: route_post_chat_authenticated post_chat_string_prompt mn_def)
  then have route: "route_post_chat e authorization b s =
      (case chat_in_conversation e c p mn s1 of (r, s', evs) \<Rightarrow> (r, s', ev1 @ evs))"
    using assms(4) by (simp add: chat_turn_def)
  have "prefix
           (ev1 @ [SelectMessages (conv_id c) 20, InsertMessage (conv_id c) ''user'' p,
                   GenerateContent model ctx])
           (snd (snd (route_post_chat e authorization b s)))"
    using chat_in_conversation_events [OF assms(5,6), of c p s1 mn]
    by (simp add: route split_beta msgs assms(7))
  moreover have "route_post_chat e authorization b s =
                 (chat_catch err,
                  s1\<lparr>messages := messages s @
                        [\<lparr>msg_id = next_msg_id s1, conversation_id = conv_id c,
                          role = ''user'', content = p,
                          created_at = insert_user_message_now e\<rparr>],
                     next_msg_id := Suc (next_msg_id s1)\<rparr>,
                  ev1 @ [SelectMessages (conv_id c) 20, InsertMessage (conv_id c) ''user'' p,
                         GenerateContent model ctx])"
    if "generateContent e model ctx = Inl err" for err
    using chat_in_conversation_completion_fails [OF assms(5,6), of c s1 p err mn] that
    by (simp add: route msgs assms(7))
  ultimately show ?thesis using chat_catch_status by blast
qed

theorem user_message_saved_before_completion_witness:
  "verifyAuth (getUser failing_env) (Some ''Bearer alice-token'') = Inr ''alice''
   \<and> route_post_chat failing_env (Some ''Bearer alice-token'')
        \<lparr>prompt = JStr ''how are you'', body_conversation_id = Some 0,
         model_name = Undefined\<rparr> demo_store =
      (Failure 500 ''Failed to generate response. Please try again.''
         (Some ''503 Service Unavailable''),
       \<lparr>conversations = conversations demo_store,
        messages = messages demo_store @
          [\<lparr>msg_id = 2, conversation_id = 0, role = ''user'', content = ''how are you'',
            created_at = 101\<rparr>],
        next_conv_id = 2, next_msg_id = 3\<rparr>,
       [SelectConversation 0 ''alice'', SelectMessages 0 20,
        InsertMessage 0 ''user'' ''how are you'',
        GenerateContent ''gemini-2.0-flash-exp''
          ''Previous conversation:\<newline>User: hi\<newline>Assistant: hello\<newline>\<newline>Current message:\<newline>how are you\<newline>\<newline>Please respond remembering our previous conversation and maintain context.''])"
proof -
  have auth: "verifyAuth (getUser failing_env) (Some ''Bearer alice-token'') = Inr ''alice''"
    by (simp add: verifyAuth_def failing_env_def demo_env_def)
  have resolved:
    "getOrCreateConversation (select_conversation_error failing_env)
       (insert_conversation_error failing_env) (insert_conversation_now failing_env) ''alice''
       (body_conversation_id \<lparr>prompt = JStr ''how are you'', body_conversation_id = Some 0,
                              model_name = Undefined\<rparr>)
       (take 50 ''how are you'' @ ''...'') demo_store
     = (Inr \<lparr>conv_id = 0, user_id = ''alice'', title = ''Greetings'',
             conv_created_at = 10, updated_at = 10\<rparr>, demo_store,
        [SelectConversation 0 ''alice''])"
    by (simp add: getOrCreateConversation_def single_def failing_env_def demo_env_def
        demo_store_def)
  have fails: "generateContent failing_env model ctx = Inl ''503 Service Unavailable''" for ctx
    by (simp add: failing_env_def)
  show ?thesis
    using user_message_saved_before_completion [OF auth _ _ resolved _ _ refl] fails auth
    by (simp add: failing_env_def demo_env_def)
       (simp add: demo_store_def chat_catch_def sublist_code(3) fullContext_def push_rendered_def
          slice_0_minus1_def model_def)
qed

section \<open>Properties of the history\<close>

lemma sorted_take_drop:
  assumes "sorted (map f xs)"
  shows "\<forall>a \<in> set (take n xs). \<forall>b \<in> set (drop n xs). f a \<le> f b"
proof -
  have "sorted (map f (take n xs) @ map f (drop n xs))"
    using assms by (simp flip: map_append)
  then show ?thesis by (auto simp: sorted_append)
qed

lemma mset_minus_take:
  "mset ys - mset (take n (sort_key f ys)) = mset (drop n (sort_key f ys))"
proof -
  have "mset ys = mset (take n (sort_key f ys)) + mset (drop n (sort_key f ys))"
    by (simp flip: mset_append)
  then show ?thesis by simp
qed

lemma history_oldest:
  fixes ms :: "message list"
  defines "h \<equiv> take 20 (sort_key created_at ms)"
  shows "sorted (map created_at h)"
    and "length h \<le> 20"
    and "20 < length ms \<Longrightarrow> length h = 20"
    and "mset h \<subseteq># mset ms"
    and "\<forall>old \<in> set h. \<forall>new \<in># mset ms - mset h. created_at old \<le> created_at new"
proof -
  have srt: "sorted (map created_at (sort_key created_at ms))"
    by simp
  show "sorted (map created_at h)"
    unfolding h_def using srt by (simp add: take_map [symmetric] sorted_wrt_take)
  show "length h \<le> 20" by (simp add: h_def)
  show "length h = 20" if "20 < length ms" using that by (simp add: h_def)
  have "mset h \<subseteq># mset (sort_key created_at ms)"
    unfolding h_def by (metis append_take_drop_id mset_append mset_subset_eq_add_left)
  then show "mset h \<subseteq># mset ms" by simp
  show "\<forall>old \<in> set h. \<forall>new \<in># mset ms - mset h. created_at old \<le> created_at new"
    unfolding h_def using sorted_take_drop [OF srt, of 20] by (simp add: mset_minus_take)
qed

text \<open>
  C6. For two authenticated requests for the messages of the same conversation, whoever
  the principals are, the route gives the same response. When the store answers, the
  response is the conversation's messages sorted by creation time, oldest first, cut
  after 20; the table of conversations, where ownership is recorded, has no influence on
  it.
\<close>

theorem messages_route_ignores_principal:
  assumes "verifyAuth (getUser e) authorization1 = Inr u1"
    and "verifyAuth (getUser e) authorization2 = Inr u2"
  shows "route_get_messages e authorization1 i s = route_get_messages e authorization2 i s
       \<and> fst (route_get_messages e authorization1 i (s\<lparr>conversations := cs\<rparr>))
           = fst (route_get_messages e authorization1 i s)
       \<and> (select_messages_error e = None \<longrightarrow>
            (\<exists>msgs. route_get_messages e authorization1 i s
                       = (MessageList msgs, s, [SelectMessages i 20])
                  \<and> msgs = take 20 (sort_key created_at
                             (filter (\<lambda>m. conversation_id m = i) (messages s)))
                  \<and> sorted (map created_at msgs) \<and> length msgs \<le> 20))"
proof -
  have "select_messages_error e = None \<longrightarrow>
          sorted (map created_at (take 20 (sort_key created_at
                    (filter (\<lambda>m. conversation_id m = i) (messages s)))))"
    using history_oldest(1) by blast
  then show ?thesis
    using assms
    by (auto simp: route_get_messages_def get_messages_def getConversationHistory_def
        default_limit_def split: option.splits)
qed

theorem messages_route_ignores_principal_witness:
  "verifyAuth (getUser demo_env) (Some ''Bearer alice-token'') = Inr ''alice''
   \<and> verifyAuth (getUser demo_env) (Some ''Bearer bob-token'') = Inr ''bob''
   \<and> route_get_messages demo_env (Some ''Bearer bob-token'') 0 demo_store
       = route_get_messages demo_env (Some ''Bearer alice-token'') 0 demo_store
   \<and> route_get_messages demo_env (Some ''Bearer bob-token'') 0 demo_store
       = (MessageList (messages demo_store), demo_store, [SelectMessages 0 20])"
proof -
  have answers: "select_messages_error demo_env = None"
    by (simp add: demo_env_def)
  have stored: "take 20 (sort_key created_at
                  (filter (\<lambda>m. conversation_id m = 0) (messages demo_store)))
                = messages demo_store"
    by (simp add: demo_store_def)
  note route = messages_route_ignores_principal
                 [OF demo_auth_bob demo_auth_alice, where i = 0 and s = demo_store and cs = "[]"]
  have "route_get_messages demo_env (Some ''Bearer bob-token'') 0 demo_store
          = route_get_messages demo_env (Some ''Bearer alice-token'') 0 demo_store"
    using route by (rule conjunct1)
  moreover from route answers obtain msgs
    where "route_get_messages demo_env (Some ''Bearer bob-token'') 0 demo_store
             = (MessageList msgs, demo_store, [SelectMessages 0 20])"
      and "msgs = take 20 (sort_key created_at
                    (filter (\<lambda>m. conversation_id m = 0) (messages demo_store)))"
    by blast
  then have "route_get_messages demo_env (Some ''Bearer bob-token'') 0 demo_store
       = (MessageList (messages demo_store), demo_store, [SelectMessages 0 20])"
    by (simp only: stored)
  ultimately show ?thesis
    using demo_auth_alice demo_auth_bob by simp
qed

text \<open>
  C7, evaluated where it fails. A first turn that asks for \<open>gemini-1.5-pro\<close> is answered
  with \<open>model_used = gemini-1.5-pro\<close>, while the only completion call is made on
  \<open>gemini-2.0-flash-exp\<close>.
\<close>

theorem model_used_echoes_request:
  "route_post_chat demo_env (Some ''Bearer alice-token'')
     \<lparr>prompt = JStr ''hi'', body_conversation_id = None,
      model_name = JStr ''gemini-1.5-pro''\<rparr> demo_store =
   (ChatReply ''hello'' 2 (JStr ''gemini-1.5-pro''),
    \<lparr>conversations = conversations demo_store @
       [\<lparr>conv_id = 2, user_id = ''alice'', title = ''hi'',
         conv_created_at = 100, updated_at = 100\<rparr>],
     messages = messages demo_store @
       [\<lparr>msg_id = 2, conversation_id = 2, role = ''user'', content = ''hi'',
         created_at = 101\<rparr>,
        \<lparr>msg_id = 3, conversation_id = 2, role = ''assistant'', content = ''hello'',
         created_at = 102\<rparr>],
     next_conv_id = 3, next_msg_id = 4\<rparr>,
    [InsertConversation ''alice'' ''hi...'', SelectMessages 2 20,
     InsertMessage 2 ''user'' ''hi'', GenerateContent ''gemini-2.0-flash-exp'' ''hi'',
     InsertMessage 2 ''assistant'' ''hello'', UpdateTitle 2 ''hi''])"
  by (simp add: chat_evaluation demo_env_def demo_store_def)

theorem model_used_echoes_request_witness:
  "fst (route_post_chat demo_env (Some ''Bearer alice-token'')
          \<lparr>prompt = JStr ''hi'', body_conversation_id = None,
           model_name = JStr ''gemini-1.5-pro''\<rparr> demo_store)
     = ChatReply ''hello'' 2 (JStr ''gemini-1.5-pro'')
   \<and> snd (snd (route_post_chat demo_env (Some ''Bearer alice-token'')
          \<lparr>prompt = JStr ''hi'', body_conversation_id = None,
           model_name = JStr ''gemini-1.5-pro''\<rparr> demo_store)) ! 3
     = GenerateContent ''gemini-2.0-flash-exp'' ''hi''"
  using model_used_echoes_request by simp

text \<open>
  C10. For a conversation with more than 20 stored messages, the history read by
  \<open>getConversationHistory\<close> has 20 messages in ascending order of creation time, all of
  them messages of the conversation, and every message of the conversation left out was
  created no earlier than any message kept. The messages route returns this history, and
  the chat turn sends the context assembled from it to the completion service.
\<close>

theorem history_keeps_twenty_oldest:
  assumes "20 < length (filter (\<lambda>m. conversation_id m = i) (messages s))"
    and "select_messages_error e = None"
  shows "\<exists>h. getConversationHistory (select_messages_error e) i default_limit s
                = (Inr h, [SelectMessages i 20])
            \<and> get_messages e u i s = (MessageList h, s, [SelectMessages i 20])
            \<and> (conv_id c = i \<longrightarrow> insert_user_message_error e = None \<longrightarrow>
                 GenerateContent model (fullContext h p)
                   \<in> set (snd (snd (chat_in_conversation e c p mn s))))
            \<and> length h = 20
            \<and> sorted (map created_at h)
            \<and> mset h \<subseteq># mset (filter (\<lambda>m. conversation_id m = i) (messages s))
            \<and> (\<forall>old \<in> set h.
                 \<forall>new \<in># mset (filter (\<lambda>m. conversation_id m = i) (messages s)) - mset h.
                   created_at old \<le> created_at new)"
proof -
  let ?ms = "filter (\<lambda>m. conversation_id m = i) (messages s)"
  let ?h = "take 20 (sort_key created_at ?ms)"
  have hist: "getConversationHistory (select_messages_error e) i default_limit s
                = (Inr ?h, [SelectMessages i 20])"
    using assms(2) by (simp add: getConversationHistory_ok)
  have route: "get_messages e u i s = (MessageList ?h, s, [SelectMessages i 20])"
    by (simp add: get_messages_def hist)
  have turn: "GenerateContent model (fullContext ?h p)
                \<in> set (snd (snd (chat_in_conversation e c p mn s)))"
    if "conv_id c = i" and "insert_user_message_error e = None"
    using chat_in_conversation_events [OF assms(2) that(2), of c p s mn] that(1)
    by (auto simp: prefix_def)
  show ?thesis
  proof (intro exI [of _ ?h] conjI impI)
    show "getConversationHistory (select_messages_error e) i default_limit s
            = (Inr ?h, [SelectMessages i 20])"
      by (fact hist)
    show "get_messages e u i s = (MessageList ?h, s, [SelectMessages i 20])"
      by (fact route)
    show "GenerateContent model (fullContext ?h p)
            \<in> set (snd (snd (chat_in_conversation e c p mn s)))"
      if "conv_id c = i" and "insert_user_message_error e = None"
      using that by (rule turn)
    show "length ?h = 20"
      using assms(1) by (rule history_oldest(3))
    show "sorted (map created_at ?h)"
      by (rule history_oldest(1))
    show "mset ?h \<subseteq># mset ?ms"
      by (rule history_oldest(4))
    show "\<forall>old \<in> set ?h. \<forall>new \<in># mset ?ms - mset ?h. created_at old \<le> created_at new"
      by (rule history_oldest(5))
  qed
qed

theorem history_keeps_twenty_oldest_witness:
  "20 < length (filter (\<lambda>m. conversation_id m = 0) (messages long_store))
   \<and> select_messages_error demo_env = None
   \<and> (\<exists>h. get_messages demo_env ''bob'' 0 long_store
               = (MessageList h, long_store, [SelectMessages 0 20])
          \<and> length h = 20
          \<and> sorted (map created_at h))"
proof -
  have many: "20 < length (filter (\<lambda>m. conversation_id m = 0) (messages long_store))"
    by (simp add: long_store_def)
  have answers: "select_messages_error demo_env = None"
    by (simp add: demo_env_def)
  from history_keeps_twenty_oldest
         [OF many answers, where u = "''bob''" and c = undefined and p = "[]" and mn = Undefined]
  obtain h where "get_messages demo_env ''bob'' 0 long_store
                    = (MessageList h, long_store, [SelectMessages 0 20])"
    and "length h = 20" and "sorted (map created_at h)"
    by blast
  then show ?thesis using many answers by blast
qed

lemma long_store_history:
  "map msg_id (take 20 (sort_key created_at
      (filter (\<lambda>m. conversation_id m = 0) (messages long_store)))) = rev [1..<21]"
  by (simp add: long_store_def upt_conv_Cons)

section \<open>The store stays well formed\<close>

lemma conv_id_retitled:
  "conv_id \<circ> (\<lambda>c. if conv_id c = i then c\<lparr>title := t\<rparr> else c) = conv_id"
  by (auto simp: fun_eq_iff)

lemma getOrCreateConversation_cases:
  assumes "getOrCreateConversation se ie now u cid t s = (r, s1, ev1)"
  obtains (found) c where "r = Inr c" and "s1 = s" and "c \<in> set (conversations s)"
  | (failed) err where "r = Inl err" and "s1 = s"
  | (created) "r = Inr \<lparr>conv_id = next_conv_id s, user_id = u, title = t,
                        conv_created_at = fst now, updated_at = snd now\<rparr>"
      and "s1 = s\<lparr>conversations := conversations s @
                     [\<lparr>conv_id = next_conv_id s, user_id = u, title = t,
                       conv_created_at = fst now, updated_at = snd now\<rparr>],
                  next_conv_id := Suc (next_conv_id s)\<rparr>"
proof (cases "\<exists>i c. cid = Some i \<and> se = None
                \<and> filter (\<lambda>c. conv_id c = i \<and> user_id c = u) (conversations s) = [c]")
  case True
  then obtain i c where *: "cid = Some i" "se = None"
      "filter (\<lambda>c. conv_id c = i \<and> user_id c = u) (conversations s) = [c]"
    by blast
  then have "c \<in> set (filter (\<lambda>c. conv_id c = i \<and> user_id c = u) (conversations s))"
    by simp
  then have "c \<in> set (conversations s)" by simp
  moreover have "r = Inr c" "s1 = s"
    using assms * by (simp_all add: getOrCreateConversation_def single_def)
  ultimately show ?thesis using found by blast
next
  case False
  then have lookup: "(case cid of
           None \<Rightarrow> (None, [])
         | Some i \<Rightarrow>
             (case single se
                     (filter (\<lambda>c. conv_id c = i \<and> user_id c = u) (conversations s)) of
                Inr data \<Rightarrow> (Some data, [SelectConversation i u])
              | Inl _ \<Rightarrow> (None, [SelectConversation i u])))
          = (None, case cid of None \<Rightarrow> [] | Some i \<Rightarrow> [SelectConversation i u])"
    by (auto simp: single_def split: option.splits list.splits)
  show ?thesis
  proof (cases ie)
    case None
    then show ?thesis
      using assms lookup created by (auto simp: getOrCreateConversation_def Let_def)
  next
    case (Some err)
    then show ?thesis
      using assms lookup failed by (auto simp: getOrCreateConversation_def Let_def)
  qed
qed

lemma wf_store_getOrCreateConversation:
  assumes "wf_store s"
    and "getOrCreateConversation se ie now u cid t s = (r, s1, ev1)"
  shows "wf_store s1" and "\<And>c. r = Inr c \<Longrightarrow> conv_id c < next_conv_id s1"
proof -
  show "wf_store s1"
    using assms(2)
  proof (cases rule: getOrCreateConversation_cases)
    case created
    then show ?thesis
      using assms(1) by (auto simp: wf_store_def list_all_iff less_Suc_eq)
  qed (use assms(1) in simp_all)
  show "conv_id c < next_conv_id s1" if "r = Inr c" for c
    using assms(2)
  proof (cases rule: getOrCreateConversation_cases)
    case (found c')
    then show ?thesis
      using assms(1) that by (auto simp: wf_store_def list_all_iff)
  qed (use that in auto)
qed

lemma wf_store_saveMessage:
  assumes "saveMessage err now i r t s = (x, s', ev)"
    and "wf_store s" and "i < next_conv_id s"
  shows "wf_store s' \<and> next_conv_id s' = next_conv_id s"
  using assms by (auto simp: saveMessage_def Let_def wf_store_def split: option.splits)

lemma wf_store_update_title:
  assumes "update_title err i t s = (s', ev)" and "wf_store s"
  shows "wf_store s'"
  using assms
  by (auto simp: update_title_def wf_store_def list_all_iff conv_id_retitled
      split: option.splits)

lemma wf_store_chat_in_conversation:
  assumes "wf_store s" and "conv_id c < next_conv_id s"
  shows "wf_store (fst (snd (chat_in_conversation e c p mn s)))"
  using assms
  by (auto simp: chat_in_conversation_def Let_def
      split: prod.splits sum.splits if_splits
      dest!: wf_store_saveMessage wf_store_update_title)

text \<open>Whatever the services answer, a chat request takes a well-formed store to a
  well-formed store.\<close>

lemma wf_store_post_chat:
  assumes "wf_store s"
  shows "wf_store (fst (snd (post_chat e u b s)))"
proof -
  have "wf_store (fst (snd (chat_turn e u p cid mn s)))" for p cid mn
  proof (cases "getOrCreateConversation (select_conversation_error e)
                  (insert_conversation_error e) (insert_conversation_now e) u cid
                  (take 50 p @ ''...'') s")
    case (fields r s1 ev1)
    note wf = wf_store_getOrCreateConversation [OF assms fields]
    show ?thesis
    proof (cases r)
      case (Inl err)
      then show ?thesis using fields wf(1) by (simp add: chat_turn_def)
    next
      case (Inr c)
      then show ?thesis
        using fields wf_store_chat_in_conversation [OF wf(1) wf(2) [OF Inr], of e p mn]
        by (simp add: chat_turn_def split_beta)
    qed
  qed
  then show ?thesis
    using assms by (simp add: post_chat_def Let_def split: jsval.splits)
qed

end
